theory Spec2Isabelle
  imports Complex_Main "HOL-Library.AList"
begin

section \<open>Slot layout and slot ids (app/cv/slot_detector.py)\<close>

text \<open>
  Python integers are unbounded and are modelled as \<^typ>\<open>int\<close>; Python strings are
  modelled as \<^typ>\<open>string\<close>, one \<^typ>\<open>char\<close> per code point below 256.
\<close>

record SlotROI =
  slot_id :: int
  slot_code :: string
  coordinates :: "int \<times> int \<times> int \<times> int"
  vehicle_type :: string
  camera_id :: int

text \<open>Decimal digits of a natural number, most significant first (\<open>str(n)\<close>).\<close>

fun dec_digits :: "nat \<Rightarrow> string" where
  "dec_digits n =
     (if n < 10 then [char_of (48 + n)]
      else dec_digits (n div 10) @ [char_of (48 + n mod 10)])"

declare dec_digits.simps [simp del]

text \<open>The format specification \<open>{n:02d}\<close>: zero padding to width two, the sign counted.\<close>

definition format_02d :: "int \<Rightarrow> string" where
  "format_02d i =
     (if i < 0 then CHR ''-'' # dec_digits (nat (- i))
      else (let s = dec_digits (nat i) in if length s < 2 then CHR ''0'' # s else s))"

definition calculate_slot_id :: "string \<Rightarrow> string \<Rightarrow> int \<Rightarrow> int" where
  "calculate_slot_id flr vtype slot_num =
     (let floor_offset = (if flr = ''A'' then 0 else 1000);
          type_offset = (if vtype = ''CAR'' then 0 else 100)
      in floor_offset + type_offset + slot_num)"

definition generate_car_slot_rois :: "int \<Rightarrow> string \<Rightarrow> int \<Rightarrow> SlotROI list" where
  "generate_car_slot_rois cam flr cam_num =
     (let start_slot = (cam_num - 1) * 4 + 1;
          end_slot = start_slot + 4;
          slot_width = 120; slot_height = 200;
          start_x = 50; start_y = 100; spacing = 130
      in map (\<lambda>(i, slot_num).
            \<lparr>slot_id = calculate_slot_id flr ''CAR'' slot_num,
             slot_code = flr @ ''-C-'' @ format_02d slot_num,
             coordinates = (start_x + int i * spacing, start_y, slot_width, slot_height),
             vehicle_type = ''CAR'',
             camera_id = cam\<rparr>)
          (enumerate 0 [start_slot..end_slot - 1]))"

definition generate_bike_slot_rois :: "int \<Rightarrow> string \<Rightarrow> int \<Rightarrow> SlotROI list" where
  "generate_bike_slot_rois cam flr cam_num =
     (let start_slot = (cam_num - 1) * 8 + 1;
          end_slot = start_slot + 8;
          slot_width = 60; slot_height = 120;
          start_x = 30; start_y = 80; spacing = 70
      in map (\<lambda>(i, slot_num).
            (let row = int i div 4; col = int i mod 4
             in \<lparr>slot_id = calculate_slot_id flr ''BIKE'' slot_num,
                 slot_code = flr @ ''-B-'' @ format_02d slot_num,
                 coordinates = (start_x + col * spacing, start_y + row * (slot_height + 20),
                                slot_width, slot_height),
                 vehicle_type = ''BIKE'',
                 camera_id = cam\<rparr>))
          (enumerate 0 [start_slot..end_slot - 1]))"

text \<open>
  \<open>_initialize_slot_layout\<close>: the running camera id and the dictionary \<open>camera_rois\<close>
  (an association list in insertion order) are threaded through the two nested loops.
  The background subtractors created beside each entry are OpenCV objects and are left out.
\<close>

type_synonym layout_state = "int \<times> (int \<times> SlotROI list) list"

definition add_car_camera :: "string \<Rightarrow> int \<Rightarrow> layout_state \<Rightarrow> layout_state" where
  "add_car_camera flr car_cam st =
     (case st of (cam, rois) \<Rightarrow>
        (cam + 1, AList.update cam (generate_car_slot_rois cam flr car_cam) rois))"

definition add_bike_camera :: "string \<Rightarrow> int \<Rightarrow> layout_state \<Rightarrow> layout_state" where
  "add_bike_camera flr bike_cam st =
     (case st of (cam, rois) \<Rightarrow>
        (cam + 1, AList.update cam (generate_bike_slot_rois cam flr bike_cam) rois))"

definition add_floor :: "string \<Rightarrow> layout_state \<Rightarrow> layout_state" where
  "add_floor flr st = fold (add_bike_camera flr) [1..2] (fold (add_car_camera flr) [1..5] st)"

definition initialize_slot_layout :: "(int \<times> SlotROI list) list" where
  "initialize_slot_layout = snd (fold add_floor [''A'', ''B''] (1, []))"

definition layout_rois :: "SlotROI list" where
  "layout_rois = concat (map snd initialize_slot_layout)"


section \<open>Characters and string primitives of Python\<close>

text \<open>
  \<open>ord c\<close> is the code point of a character. The classes below are those of Python 3
  restricted to code points below 256: \<open>py_isspace\<close> is the set used alike by
  \<open>str.strip()\<close>, \<open>str.isspace()\<close> and the regular expression class \<open>\s\<close> on
  \<open>str\<close> patterns; \<open>re_digit\<close> is the class \<open>\d\<close> (Unicode decimal digits).
\<close>

definition ord :: "char \<Rightarrow> nat" where
  "ord c = of_char c"

definition is_AZ :: "char \<Rightarrow> bool" where
  "is_AZ c = (65 \<le> ord c \<and> ord c \<le> 90)"

definition is_az :: "char \<Rightarrow> bool" where
  "is_az c = (97 \<le> ord c \<and> ord c \<le> 122)"

definition is_09 :: "char \<Rightarrow> bool" where
  "is_09 c = (48 \<le> ord c \<and> ord c \<le> 57)"

definition py_isspace :: "char \<Rightarrow> bool" where
  "py_isspace c =
     ((9 \<le> ord c \<and> ord c \<le> 13) \<or> (28 \<le> ord c \<and> ord c \<le> 32) \<or> ord c = 133 \<or> ord c = 160)"

definition re_digit :: "char \<Rightarrow> bool" where
  "re_digit c = is_09 c"

definition py_isdigit :: "char \<Rightarrow> bool" where
  "py_isdigit c = (is_09 c \<or> ord c = 178 \<or> ord c = 179 \<or> ord c = 185)"

definition py_isalpha :: "char \<Rightarrow> bool" where
  "py_isalpha c =
     (is_AZ c \<or> is_az c \<or> ord c = 170 \<or> ord c = 181 \<or> ord c = 186 \<or>
      (192 \<le> ord c \<and> ord c \<le> 214) \<or> (216 \<le> ord c \<and> ord c \<le> 246) \<or> 248 \<le> ord c)"

text \<open>
  \<open>str.upper()\<close>. Both callers keep only characters of \<open>[A-Za-z0-9]\<close> and white space
  next to the call, so the model is exact where the result can contain such a character:
  \<open>a\<close>..\<open>z\<close> go to \<open>A\<close>..\<open>Z\<close> and the sharp s (code point 223) goes to \<open>SS\<close>; any
  other cased character below 256 goes to a character outside \<open>[A-Za-z0-9]\<close> and is left
  as it is here.
\<close>

definition upper_chars :: "char \<Rightarrow> string" where
  "upper_chars c =
     (if is_az c then [char_of (ord c - 32)]
      else if ord c = 223 then ''SS''
      else [c])"

definition py_upper :: "string \<Rightarrow> string" where
  "py_upper s = concat (map upper_chars s)"

definition py_strip :: "string \<Rightarrow> string" where
  "py_strip s = rev (dropWhile py_isspace (rev (dropWhile py_isspace s)))"

text \<open>\<open>re.sub(r'\s+', ' ', s)\<close>: every maximal run of white space becomes one space.\<close>

function sub_spaces :: "string \<Rightarrow> string" where
  "sub_spaces [] = []"
| "sub_spaces (c # cs) =
     (if py_isspace c then CHR '' '' # sub_spaces (dropWhile py_isspace cs)
      else c # sub_spaces cs)"
  by pat_completeness auto
termination
  by (relation "measure length") (auto simp: length_dropWhile_le less_Suc_eq_le)

section \<open>Plate text cleaning and validation (app/cv/anpr.py)\<close>

definition clean_plate_text :: "string \<Rightarrow> string" where
  "clean_plate_text text =
     (let cleaned = filter (\<lambda>c. is_AZ c \<or> is_az c \<or> is_09 c \<or> py_isspace c) text;
          cleaned = py_upper cleaned;
          cleaned = sub_spaces (py_strip cleaned)
      in cleaned)"

text \<open>
  The three plate patterns have one shape: a sequence of character classes, each with a
  repetition range, between \<open>^\<close> and \<open>$\<close>. An item \<open>(p, lo, hi)\<close> stands for the class
  \<open>p\<close> repeated \<open>lo\<close> to \<open>hi\<close> times. \<open>re_match\<close> is \<open>re.match\<close> on such a
  pattern: the items consume a prefix, and \<open>$\<close> holds at the end of the text or just
  before a line feed that ends it.
\<close>

type_synonym re_item = "(char \<Rightarrow> bool) \<times> nat \<times> nat"

fun re_match :: "re_item list \<Rightarrow> string \<Rightarrow> bool" where
  "re_match [] s = (s = [] \<or> s = [char_of (10::nat)])"
| "re_match ((p, lo, hi) # rest) s =
     list_ex (\<lambda>k. k \<le> length s \<and> list_all p (take k s) \<and> re_match rest (drop k s))
       [lo..<Suc hi]"

definition plate_patterns :: "re_item list list" where
  "plate_patterns =
     [[(is_AZ, 1, 3), (py_isspace, 0, 1), (re_digit, 1, 4), (py_isspace, 0, 1), (is_AZ, 0, 3)],
      [(re_digit, 1, 2), (py_isspace, 0, 1), (is_AZ, 1, 3), (py_isspace, 0, 1), (re_digit, 1, 4)],
      [(is_AZ, 2, 2), (py_isspace, 0, 1), (re_digit, 2, 2), (py_isspace, 0, 1), (is_AZ, 1, 3),
       (py_isspace, 0, 1), (re_digit, 1, 4)]]"

definition validate_plate_text :: "re_item list list \<Rightarrow> string \<Rightarrow> bool" where
  "validate_plate_text patterns text =
     (if text = [] \<or> length text < 4 then False
      else if list_ex (\<lambda>pattern. re_match pattern text) patterns then True
      else (let has_letter = list_ex py_isalpha text;
                has_number = list_ex py_isdigit text
            in has_letter \<and> has_number))"


text \<open>The characters a cleaned plate text is made of.\<close>

definition plate_char :: "char \<Rightarrow> bool" where
  "plate_char c = (is_AZ c \<or> is_09 c \<or> py_isspace c)"

section \<open>Event dispatcher (app/cv/cv_service.py)\<close>

text \<open>
  A \<open>datetime\<close> is modelled as an integer number of microseconds (its resolution) and a
  \<open>timedelta\<close> as the integer difference of two. A Python \<open>float\<close> is modelled as
  the real number it stands for; the dispatcher only compares floats, which is exact, and
  the decimals of its thresholds and scenarios compare as the doubles nearest to them do.
\<close>

record CVSystemConfig =
  api_base_url :: string
  yolo_model_path :: string
  confidence_threshold :: real
  plate_confidence_threshold :: real
  processing_fps :: int
  enable_gpu :: bool

text \<open>The exceptions of Python that the modelled code can raise.\<close>

datatype py_error = ZeroDivisionError | RuntimeError | TypeError

text \<open>
  The dictionary a camera hands to the dispatcher. \<open>license_plate\<close> is read with
  \<open>.get('license_plate')\<close>, which gives \<open>None\<close> alike for an absent key and for a
  stored \<open>None\<close>. \<open>plate_confidence\<close> is read with \<open>.get('plate_confidence', 0.0)\<close>,
  which tells the two apart: an absent key gives 0.0, a stored \<open>None\<close> gives \<open>None\<close>.
\<close>

datatype 'a dict_value = KeyAbsent | HoldsNone | Holds 'a

record detection_data =
  det_camera_id :: int
  det_vehicle_type :: string
  det_confidence :: real
  license_plate :: "string option"
  plate_confidence :: "real dict_value"
  det_timestamp :: int

record detection_stats =
  total_detections :: int
  successful_entries :: int
  successful_exits :: int
  failed_detections :: int

text \<open>
  A backend call starts as a coroutine handed to \<open>asyncio.create_task\<close>; \<open>api_tasks\<close>
  lists the tasks created, in order. \<open>create_task\<close> needs an event loop running in the
  calling thread and raises \<open>RuntimeError\<close> without one; whether there is one is an input
  of each handler, \<open>loop_running\<close>. The handlers are registered as the callbacks of the
  camera manager, which calls them from its worker threads, where no loop runs. Each
  handler catches whatever its body raises and logs it; \<open>handler_errors\<close> lists what was
  caught. How the loop runs a task later, with the counters the task updates when the
  backend has answered, is outside the model.
\<close>

datatype api_call = EntryApi detection_data | ExitApi detection_data

record CVParkingService =
  config :: CVSystemConfig
  last_api_call :: "string \<rightharpoonup> int"
  stats :: detection_stats
  api_cooldown :: int
  api_tasks :: "api_call list"
  handler_errors :: "py_error list"

definition seconds :: "int \<Rightarrow> int" where
  "seconds n = n * 1000000"

text \<open>The state \<open>__init__\<close> leaves, for a given configuration.\<close>

definition default_config :: CVSystemConfig where
  "default_config =
     \<lparr>api_base_url = ''http://localhost:8000/api/v1'', yolo_model_path = ''yolov8n.pt'',
      confidence_threshold = 0.6, plate_confidence_threshold = 0.7, processing_fps = 5,
      enable_gpu = False\<rparr>"

definition init_service :: "CVSystemConfig \<Rightarrow> CVParkingService" where
  "init_service cfg =
     \<lparr>config = cfg, last_api_call = Map.empty,
      stats = \<lparr>total_detections = 0, successful_entries = 0, successful_exits = 0,
               failed_detections = 0\<rparr>,
      api_cooldown = seconds 5, api_tasks = [], handler_errors = []\<rparr>"

text \<open>
  \<open>_is_rate_limited\<close> reads the clock twice: \<open>now_check\<close> is the reading compared with
  the stored time stamp, \<open>now_store\<close> the reading stored.
\<close>

definition rate_key :: "string \<Rightarrow> string \<Rightarrow> string" where
  "rate_key detection_type plate = detection_type @ ''_'' @ plate"

definition is_rate_limited ::
  "int \<Rightarrow> int \<Rightarrow> string \<Rightarrow> string \<Rightarrow> CVParkingService \<Rightarrow> bool \<times> CVParkingService" where
  "is_rate_limited now_check now_store detection_type plate s =
     (let key = rate_key detection_type plate;
          last_call = last_api_call s key
      in if (case last_call of None \<Rightarrow> False | Some t \<Rightarrow> now_check - t < api_cooldown s)
         then (True, s)
         else (False, s\<lparr>last_api_call := (last_api_call s)(key \<mapsto> now_store)\<rparr>))"

text \<open>
  \<open>_handle_entry_detection\<close>. The comparison of the confidence with the threshold
  raises \<open>TypeError\<close> when the dictionary holds \<open>None\<close>. Both this and the failure of
  \<open>create_task\<close> come after the rate limiter has stored the time stamp.
\<close>

definition handle_entry_detection ::
  "bool \<Rightarrow> int \<Rightarrow> int \<Rightarrow> detection_data \<Rightarrow> CVParkingService \<Rightarrow> CVParkingService" where
  "handle_entry_detection loop_running now_check now_store d s =
     (case license_plate d of
        None \<Rightarrow> s
      | Some plate \<Rightarrow>
          if plate = [] then s
          else (case is_rate_limited now_check now_store ''entry'' plate s of
                  (True, s') \<Rightarrow> s'
                | (False, s') \<Rightarrow>
                    (case (case plate_confidence d of
                             KeyAbsent \<Rightarrow> Inr 0
                           | Holds c \<Rightarrow> Inr c
                           | HoldsNone \<Rightarrow> Inl TypeError) of
                       Inl err \<Rightarrow> s'\<lparr>handler_errors := handler_errors s' @ [err]\<rparr>
                     | Inr conf \<Rightarrow>
                         if conf < plate_confidence_threshold (config s')
                         then s'\<lparr>stats := (stats s')\<lparr>failed_detections :=
                                    failed_detections (stats s') + 1\<rparr>\<rparr>
                         else if loop_running
                         then s'\<lparr>api_tasks := api_tasks s' @ [EntryApi d]\<rparr>
                         else s'\<lparr>handler_errors := handler_errors s' @ [RuntimeError]\<rparr>)))"

definition handle_exit_detection ::
  "bool \<Rightarrow> int \<Rightarrow> int \<Rightarrow> detection_data \<Rightarrow> CVParkingService \<Rightarrow> CVParkingService" where
  "handle_exit_detection loop_running now_check now_store d s =
     (case license_plate d of
        None \<Rightarrow> s
      | Some plate \<Rightarrow>
          if plate = [] then s
          else (case is_rate_limited now_check now_store ''exit'' plate s of
                  (True, s') \<Rightarrow> s'
                | (False, s') \<Rightarrow>
                    if loop_running
                    then s'\<lparr>api_tasks := api_tasks s' @ [ExitApi d]\<rparr>
                    else s'\<lparr>handler_errors := handler_errors s' @ [RuntimeError]\<rparr>))"

text \<open>A detection at the entry gate, as the scenarios of the specification use it.\<close>

definition entry_detection :: "string \<Rightarrow> real \<Rightarrow> detection_data" where
  "entry_detection plate conf =
     \<lparr>det_camera_id = 1, det_vehicle_type = ''CAR'', det_confidence = 0.9,
      license_plate = Some plate, plate_confidence = Holds conf, det_timestamp = 0\<rparr>"

section \<open>Plate OCR (parking-cv-service/src/models/plate_ocr.py)\<close>








text \<open>
  \<open>validate_plate_format\<close>. A pattern, when one is given, is its text together with
  the set of texts \<open>re.match\<close> accepts for it. The code tests \<open>if pattern:\<close>, so an
  empty pattern text counts as no pattern.
\<close>

definition validate_plate_format ::
  "string \<Rightarrow> (string \<times> (string \<Rightarrow> bool)) option \<Rightarrow> bool" where
  "validate_plate_format text pattern =
     (if text = [] then False
      else if \<not> (4 \<le> length text \<and> length text \<le> 8) then False
      else (case (case pattern of
                    None \<Rightarrow> None
                  | Some (pattern_text, matches) \<Rightarrow>
                      if pattern_text = [] then None else Some matches) of
              Some matches \<Rightarrow> matches text
            | None \<Rightarrow>
                (let has_digit = list_ex py_isdigit text;
                     has_letter = list_ex py_isalpha text
                 in has_digit \<and> has_letter)))"

section \<open>Entry pipeline (parking-cv-service/src/pipelines/entry_pipeline.py)\<close>

text \<open>
  \<open>timedelta.seconds\<close> and \<open>timedelta.total_seconds()\<close> of a difference given in
  microseconds: a \<open>timedelta\<close> is kept as days, seconds (0 to 86399) and microseconds
  (0 to 999999), and \<open>.seconds\<close> is the middle component alone.
\<close>

definition td_seconds :: "int \<Rightarrow> int" where
  "td_seconds delta = (delta div 1000000) mod 86400"

definition td_days :: "int \<Rightarrow> int" where
  "td_days delta = delta div (86400 * 1000000)"

text \<open>
  What the detectors and the OCR return for one frame: the largest vehicle (class name
  and confidence), the best plate (confidence), the text read from the plate crop, and
  whether the backend call returns or raises.
\<close>

datatype backend_outcome = BackendResponse | BackendError

record frame_obs =
  obs_vehicle :: "(string \<times> real) option"
  obs_plate :: "real option"
  obs_plate_text :: "string option"
  obs_backend :: backend_outcome

record entry_event =
  ev_plate_number :: string
  ev_vehicle_type :: string
  ev_vehicle_confidence :: real
  ev_plate_confidence :: real
  ev_timestamp :: int
  ev_backend :: backend_outcome

record EntryPipeline =
  frame_skip :: int
  frame_count :: int
  last_processed_plate :: "string option"
  last_processed_time :: "int option"
  register_entry_calls :: "(string \<times> string \<times> int \<times> real) list"

definition process_frame ::
  "int \<Rightarrow> frame_obs \<Rightarrow> EntryPipeline \<Rightarrow> py_error + (entry_event option \<times> EntryPipeline)" where
  "process_frame current_time obs p0 =
     (let p = p0\<lparr>frame_count := frame_count p0 + 1\<rparr> in
      if frame_skip p = 0 then Inl ZeroDivisionError
      else if frame_count p mod frame_skip p \<noteq> 0 then Inr (None, p)
      else (case obs_vehicle obs of
        None \<Rightarrow> Inr (None, p)
      | Some (class_name, vehicle_conf) \<Rightarrow>
      (case obs_plate obs of
        None \<Rightarrow> Inr (None, p)
      | Some plate_conf \<Rightarrow>
      (case obs_plate_text obs of
        None \<Rightarrow> Inr (None, p)
      | Some plate_text \<Rightarrow>
          if plate_text = [] then Inr (None, p)
          else if \<not> validate_plate_format plate_text None then Inr (None, p)
          else if last_processed_plate p = Some plate_text \<and>
                  (case last_processed_time p of
                     None \<Rightarrow> False
                   | Some t \<Rightarrow> td_seconds (current_time - t) < 10)
          then Inr (None, p)
          else Inr (Some \<lparr>ev_plate_number = plate_text, ev_vehicle_type = class_name,
                           ev_vehicle_confidence = vehicle_conf,
                           ev_plate_confidence = plate_conf,
                           ev_timestamp = current_time, ev_backend = obs_backend obs\<rparr>,
                    p\<lparr>last_processed_plate := Some plate_text,
                      last_processed_time := Some current_time,
                      register_entry_calls := register_entry_calls p @
                        [(plate_text, class_name, current_time, plate_conf)]\<rparr>)))))"

text \<open>A pipeline that processes every frame and last accepted \<open>plate\<close> at time \<open>t\<close>.\<close>

definition pipeline_after :: "string \<Rightarrow> int \<Rightarrow> EntryPipeline" where
  "pipeline_after plate t =
     \<lparr>frame_skip = 1, frame_count = 1, last_processed_plate = Some plate,
      last_processed_time = Some t, register_entry_calls = [(plate, ''car'', t, 0.9)]\<rparr>"

definition frame_with_plate :: "string \<Rightarrow> frame_obs" where
  "frame_with_plate plate =
     \<lparr>obs_vehicle = Some (''car'', 0.9), obs_plate = Some 0.9, obs_plate_text = Some plate,
      obs_backend = BackendResponse\<rparr>"


section \<open>Double-precision floats\<close>

text \<open>
  The scores are Python floats and NumPy \<open>float64\<close> values: IEEE 754 doubles. A finite
  double is modelled as the real number it stands for, and each arithmetic operation as
  the exact operation followed by \<open>double\<close>, the rounding to the nearest double with ties
  going to the even significand. \<open>scale_up\<close> and \<open>scale_down\<close> bring a positive number
  into the range from \<open>2 ^ 52\<close> up to \<open>2 ^ 53\<close> by doubling and halving and count the
  steps; there the doubles are the integers. Below \<open>2 ^ - 1022\<close> the doubles are the
  multiples of \<open>2 ^ - 1074\<close>. Infinities and NaN are outside the model; the operations of
  the scorer do not overflow.
\<close>

function scale_up :: "real \<Rightarrow> int \<Rightarrow> real \<times> int" where
  "scale_up x e = (if 0 < x \<and> x < 2 ^ 52 then scale_up (x * 2) (e - 1) else (x, e))"
  by pat_completeness auto
termination
proof (relation "measure (\<lambda>(x, e). nat \<lceil>2 ^ 52 / x\<rceil>)")
  show "wf (measure (\<lambda>(x, e). nat \<lceil>2 ^ 52 / x\<rceil>))" by simp
next
  fix x :: real and e :: int
  assume a: "0 < x \<and> x < 2 ^ 52"
  define h where "h = 2 ^ 52 / x"
  from a have h: "1 < h" by (simp add: h_def)
  have "\<lceil>h / 2\<rceil> < \<lceil>h\<rceil>"
  proof (cases "h \<le> 2")
    case True
    then have "\<lceil>h / 2\<rceil> \<le> 1" by (simp add: ceiling_le_iff)
    moreover from h have "2 \<le> \<lceil>h\<rceil>" by (simp add: le_ceiling_iff)
    ultimately show ?thesis by linarith
  next
    case False
    then have "h / 2 + 1 < h" by simp
    then show ?thesis by linarith
  qed
  moreover have "2 ^ 52 / (x * 2) = h / 2" by (simp add: h_def)
  moreover from h have "0 < \<lceil>h\<rceil>" by linarith
  ultimately show "((x * 2, e - 1), (x, e)) \<in> measure (\<lambda>(x, e). nat \<lceil>2 ^ 52 / x\<rceil>)"
    by (simp add: h_def)
qed

function scale_down :: "real \<Rightarrow> int \<Rightarrow> real \<times> int" where
  "scale_down x e = (if 2 ^ 53 \<le> x then scale_down (x / 2) (e + 1) else (x, e))"
  by pat_completeness auto
termination
proof (relation "measure (\<lambda>(x, e). nat \<lceil>x\<rceil>)")
  show "wf (measure (\<lambda>(x, e). nat \<lceil>x\<rceil>))" by simp
next
  fix x :: real and e :: int
  assume a: "2 ^ 53 \<le> x"
  then have "x / 2 + 1 < x" by simp
  then have "\<lceil>x / 2\<rceil> < \<lceil>x\<rceil>" by linarith
  moreover from a have "0 < \<lceil>x\<rceil>" by (simp add: less_ceiling_iff)
  ultimately show "((x / 2, e + 1), (x, e)) \<in> measure (\<lambda>(x, e). nat \<lceil>x\<rceil>)"
    by simp
qed

declare scale_up.simps [simp del] scale_down.simps [simp del]

definition pow2 :: "int \<Rightarrow> real" where
  "pow2 e = (if 0 \<le> e then 2 ^ nat e else 1 / 2 ^ nat (- e))"

definition round_half_even :: "real \<Rightarrow> int" where
  "round_half_even y =
     (let m = \<lfloor>y\<rfloor>; r = y - of_int m
      in if r < 1 / 2 then m else if 1 / 2 < r then m + 1 else if even m then m else m + 1)"

definition double_pos :: "real \<Rightarrow> real" where
  "double_pos x =
     (case scale_up x 0 of (y, e) \<Rightarrow>
      case scale_down y e of (z, e') \<Rightarrow>
        if e' < - 1074 then of_int (round_half_even (x * 2 ^ 1074)) / 2 ^ 1074
        else of_int (round_half_even z) * pow2 e')"

definition double :: "real \<Rightarrow> real" where
  "double x = (if x = 0 then 0 else if 0 < x then double_pos x else - double_pos (- x))"

text \<open>The operations on doubles. A float literal is \<open>double\<close> of its decimal.\<close>

definition fadd :: "real \<Rightarrow> real \<Rightarrow> real" where
  "fadd a b = double (a + b)"

definition fmul :: "real \<Rightarrow> real \<Rightarrow> real" where
  "fmul a b = double (a * b)"

definition fdiv :: "real \<Rightarrow> real \<Rightarrow> real" where
  "fdiv a b = double (a / b)"

section \<open>Slot occupancy scoring (app/cv/slot_detector.py)\<close>

text \<open>
  A frame is an array of rows of pixels, a pixel the list of its channel values; a mask
  is an array of rows of values.
\<close>

type_synonym image = "nat list list list"
type_synonym mask = "nat list list"

text \<open>
  \<open>xs[start:stop]\<close>: a negative index counts from the end, and an index beyond either
  end is cut to it.
\<close>

definition slice_index :: "nat \<Rightarrow> int \<Rightarrow> nat" where
  "slice_index n i = (if i < 0 then nat (max (i + int n) 0) else min (nat i) n)"

definition py_slice :: "'a list \<Rightarrow> int \<Rightarrow> int \<Rightarrow> 'a list" where
  "py_slice xs start stop =
     (let lo = slice_index (length xs) start; hi = slice_index (length xs) stop
      in take (hi - lo) (drop lo xs))"

text \<open>\<open>arr[y:y+h, x:x+w]\<close> on the first two axes of an array.\<close>

definition crop :: "'a list list \<Rightarrow> int \<Rightarrow> int \<Rightarrow> int \<Rightarrow> int \<Rightarrow> 'a list list" where
  "crop arr x y w h = map (\<lambda>row. py_slice row x (x + w)) (py_slice arr y (y + h))"

definition mask_size :: "mask \<Rightarrow> nat" where
  "mask_size m = sum_list (map length m)"

definition image_size :: "image \<Rightarrow> nat" where
  "image_size img = sum_list (map mask_size img)"

text \<open>\<open>np.sum(m > 0)\<close>.\<close>

definition count_positive :: "mask \<Rightarrow> nat" where
  "count_positive m = sum_list (map (\<lambda>row. length (filter (\<lambda>v. 0 < v) row)) m)"

record SlotStatus =
  st_slot_id :: int
  is_occupied :: bool
  confidence :: real
  st_license_plate :: "string option"
  st_vehicle_type :: "string option"
  last_updated :: "int option"

record SlotOccupancyDetector =
  motion_threshold :: real
  occupancy_threshold :: real

definition default_detector :: SlotOccupancyDetector where
  "default_detector = \<lparr>motion_threshold = double 0.3, occupancy_threshold = double 0.4\<rparr>"

text \<open>
  Two library calls are taken as they come. \<open>canny\<close> stands for the edge map OpenCV
  computes for a region, \<open>cv2.Canny(cv2.cvtColor(region, cv2.COLOR_BGR2GRAY), 50, 150)\<close>,
  and \<open>np_var\<close> for the double NumPy's \<open>np.var\<close> returns for it. The counts are
  integers; their quotients, the division by 1000, the three products and the two sums
  are operations on doubles, in the order of the source, and \<open>0.4\<close> and \<open>0.3\<close> are
  the doubles nearest to these decimals.
\<close>

definition calculate_occupancy_score ::
  "(image \<Rightarrow> mask) \<Rightarrow> (image \<Rightarrow> real) \<Rightarrow> image \<Rightarrow> mask \<Rightarrow> real" where
  "calculate_occupancy_score canny np_var slot_region mask_region =
     (if image_size slot_region = 0 then 0
      else (let motion_pixels = count_positive mask_region;
                total_pixels = mask_size mask_region;
                motion_score = (if total_pixels > 0
                                then fdiv (real motion_pixels) (real total_pixels) else 0);
                edges = canny slot_region;
                edge_score = (if mask_size edges > 0
                              then fdiv (real (count_positive edges)) (real (mask_size edges))
                              else 0);
                color_variance = np_var slot_region;
                normalized_variance = min (fdiv color_variance 1000) 1;
                occupancy_score =
                  fadd (fadd (fmul (double 0.4) motion_score) (fmul (double 0.3) edge_score))
                    (fmul (double 0.3) normalized_variance)
            in min occupancy_score 1))"

definition check_slot_occupancy ::
  "SlotOccupancyDetector \<Rightarrow> (image \<Rightarrow> mask) \<Rightarrow> (image \<Rightarrow> real) \<Rightarrow> int \<Rightarrow> image \<Rightarrow> mask \<Rightarrow>
     SlotROI \<Rightarrow> SlotStatus" where
  "check_slot_occupancy det canny np_var now frame bg_mask slot_roi =
     (case coordinates slot_roi of (x, y, w, h) \<Rightarrow>
        (let slot_region = crop frame x y w h;
             mask_region = crop bg_mask x y w h;
             occupancy_score = calculate_occupancy_score canny np_var slot_region mask_region;
             occupied = (occupancy_score > occupancy_threshold det)
         in \<lparr>st_slot_id = slot_id slot_roi, is_occupied = occupied,
             confidence = occupancy_score, st_license_plate = None,
             st_vehicle_type = None, last_updated = Some now\<rparr>))"

subsection \<open>The score as the specification words it\<close>

text \<open>
  Read in exact arithmetic: the share of positive values in a mask (0 for a mask without
  values), the variance of the values of a region (the mean squared deviation from the
  mean), and the weighted sum of the foreground ratio, the edge ratio and the variance
  over 1000 capped at 1, clamped to the interval from 0 to 1.
\<close>

definition pixel_ratio :: "mask \<Rightarrow> real" where
  "pixel_ratio m =
     (if mask_size m = 0 then 0 else real (count_positive m) / real (mask_size m))"

definition variance :: "image \<Rightarrow> real" where
  "variance img =
     (let vs = map real (concat (concat img));
          n = real (length vs);
          mean = sum_list vs / n
      in sum_list (map (\<lambda>v. (v - mean)\<^sup>2) vs) / n)"

definition spec_occupancy_score :: "real \<Rightarrow> real \<Rightarrow> real \<Rightarrow> real" where
  "spec_occupancy_score fg_ratio edge_ratio var =
     max 0 (min 1 (0.4 * fg_ratio + 0.3 * edge_ratio + 0.3 * min (var / 1000) 1))"

text \<open>
  Read in double arithmetic: the same ratio and the same weighted sum with every constant
  and every operation rounded to a double.
\<close>

definition double_pixel_ratio :: "mask \<Rightarrow> real" where
  "double_pixel_ratio m =
     (if mask_size m = 0 then 0 else fdiv (real (count_positive m)) (real (mask_size m)))"

definition double_occupancy_score :: "real \<Rightarrow> real \<Rightarrow> real \<Rightarrow> real" where
  "double_occupancy_score fg_ratio edge_ratio var =
     max 0 (min 1
       (fadd (fadd (fmul (double 0.4) fg_ratio) (fmul (double 0.3) edge_ratio))
          (fmul (double 0.3) (min (fdiv var 1000) 1))))"

text \<open>
  The rectangle of a region of interest meets the frame when some pixel position of the
  frame lies in it; the frame has as many columns as its first row.
\<close>

definition frame_width :: "'a list list \<Rightarrow> nat" where
  "frame_width frame = (case frame of [] \<Rightarrow> 0 | row # _ \<Rightarrow> length row)"

definition rect_meets_frame :: "'a list list \<Rightarrow> int \<times> int \<times> int \<times> int \<Rightarrow> bool" where
  "rect_meets_frame frame r =
     (case r of (x, y, w, h) \<Rightarrow>
        max x 0 < min (x + w) (int (frame_width frame)) \<and>
        max y 0 < min (y + h) (int (length frame)))"

text \<open>
  Examples. \<open>no_edges\<close> is an edge map without edges. \<open>rounded_variance\<close> is the
  variance rounded once: it is what \<open>np.var\<close> returns when the mean of the values is an
  integer, since the sum, the mean, the deviations, their squares and the sum of the
  squares are then computed without rounding and only the last division rounds.
  \<open>example_frame\<close> has one row and two pixels, each with channel values 0, 0 and 255,
  and \<open>example_mask\<close> is its foreground mask with both values set. \<open>flat_frame\<close> has one
  row and five pixels whose fifteen values have mean 100 and squared deviations 1600,
  1600, 400 and 400, so variance 800/3; in \<open>flat_mask\<close> four of the five values are set.
\<close>

definition no_edges :: "image \<Rightarrow> mask" where
  "no_edges region = map (map (\<lambda>pixel. 0)) region"

definition rounded_variance :: "image \<Rightarrow> real" where
  "rounded_variance region = double (variance region)"

definition example_frame :: image where
  "example_frame = [[[0, 0, 255], [0, 0, 255]]]"

definition example_mask :: mask where
  "example_mask = [[255, 255]]"

definition flat_frame :: image where
  "flat_frame =
     [[[140, 100, 60], [120, 100, 80], [100, 100, 100], [100, 100, 100], [100, 100, 100]]]"

definition flat_mask :: mask where
  "flat_mask = [[255, 255, 255, 255, 0]]"

definition roi_at :: "int \<times> int \<times> int \<times> int \<Rightarrow> SlotROI" where
  "roi_at r = \<lparr>slot_id = 1, slot_code = ''A-C-01'', coordinates = r, vehicle_type = ''CAR'',
               camera_id = 1\<rparr>"

section \<open>Camera worker loop (app/cv/camera_manager.py)\<close>

text \<open>
  One pass of the loop of \<open>_process_camera_stream\<close> sees the stop flag, the clock, what
  \<open>cap.read()\<close> does (a frame, the pair \<open>(False, None)\<close>, or an exception) and whether
  the processing of the frame raises. The worker records what it does, in order: the
  sleeps with their length in seconds, the reads, the log entries and the frames handed
  to \<open>_process_frame\<close>. Time is a real number of seconds.
\<close>

datatype 'f read_outcome = ReadFrame 'f | ReadFalse | ReadRaises

datatype 'f effect = SleepFor real | CapRead | LogWarning | LogError | ProcessFrame 'f

record 'f loop_input =
  stop_is_set :: bool
  current_time :: real
  read_result :: "'f read_outcome"
  processing_raises :: bool

record 'f worker =
  last_frame_time :: real
  frames_processed :: int
  effects :: "'f effect list"

definition loop_body :: "real \<Rightarrow> 'f loop_input \<Rightarrow> 'f worker \<Rightarrow> 'f worker" where
  "loop_body frame_interval i w =
     (if current_time i - last_frame_time w < frame_interval
      then w\<lparr>effects := effects w @ [SleepFor 0.001]\<rparr>
      else (case read_result i of
              ReadRaises \<Rightarrow> w\<lparr>effects := effects w @ [CapRead, LogError, SleepFor 1]\<rparr>
            | ReadFalse \<Rightarrow> w\<lparr>effects := effects w @ [CapRead, LogWarning]\<rparr>
            | ReadFrame frame \<Rightarrow>
                (let w = w\<lparr>last_frame_time := current_time i,
                           frames_processed := frames_processed w + 1,
                           effects := effects w @ [CapRead, ProcessFrame frame]\<rparr>
                 in if processing_raises i
                    then w\<lparr>effects := effects w @ [LogError, SleepFor 1]\<rparr>
                    else w\<lparr>effects := effects w @ [SleepFor 0.01]\<rparr>)))"

text \<open>The loop over the passes the environment allows; it ends at a set stop flag.\<close>

fun run_loop :: "real \<Rightarrow> 'f loop_input list \<Rightarrow> 'f worker \<Rightarrow> 'f worker" where
  "run_loop frame_interval [] w = w"
| "run_loop frame_interval (i # rest) w =
     (if stop_is_set i then w else run_loop frame_interval rest (loop_body frame_interval i w))"

definition process_camera_stream :: "int \<Rightarrow> 'f loop_input list \<Rightarrow> py_error + 'f worker" where
  "process_camera_stream target_fps inputs =
     (if target_fps = 0 then Inl ZeroDivisionError
      else Inr (run_loop (1 / real_of_int target_fps) inputs
                  \<lparr>last_frame_time = 0, frames_processed = 0, effects = []\<rparr>))"

text \<open>A pass at clock reading \<open>t\<close> in which the stream is dead: the read returns false.\<close>

definition dead_read :: "real \<Rightarrow> unit loop_input" where
  "dead_read t =
     \<lparr>stop_is_set = False, current_time = t, read_result = ReadFalse,
      processing_raises = False\<rparr>"

section \<open>Theorems\<close>

subsection \<open>Slot ids\<close>

text \<open>
  C5. The generated layout lists, for floor \<open>A\<close> and then floor \<open>B\<close>, the car slots
  1 to 20 and then the bike slots 1 to 16; the id of each is the floor offset (0 for \<open>A\<close>,
  1000 for \<open>B\<close>) plus the type offset (0 for \<open>CAR\<close>, 100 for \<open>BIKE\<close>) plus the slot's
  number within its type, and the 72 ids are pairwise distinct.
\<close>

theorem slot_ids_offsets_distinct:
  "map (\<lambda>r. (slot_code r, vehicle_type r, slot_id r)) layout_rois =
     concat (map (\<lambda>f.
        map (\<lambda>n. (f @ ''-C-'' @ format_02d n, ''CAR'',
                   (if f = ''A'' then 0 else 1000) + 0 + n)) [1..20] @
        map (\<lambda>n. (f @ ''-B-'' @ format_02d n, ''BIKE'',
                   (if f = ''A'' then 0 else 1000) + 100 + n)) [1..16])
      [''A'', ''B''])
   \<and> length layout_rois = 72
   \<and> distinct (map slot_id layout_rois)"
  by code_simp

subsection \<open>Plate text cleaning\<close>

lemma sub_spaces_Nil_iff [simp]: "sub_spaces s = [] \<longleftrightarrow> s = []"
  by (cases s) auto

lemma hd_sub_spaces: "s \<noteq> [] \<Longrightarrow> py_isspace (hd (sub_spaces s)) = py_isspace (hd s)"
  by (cases s) (auto simp: py_isspace_def ord_def)

lemma dropWhile_sub_spaces:
  "s = [] \<or> \<not> py_isspace (hd s) \<Longrightarrow> dropWhile py_isspace (sub_spaces s) = sub_spaces s"
  by (cases s) auto

lemma sub_spaces_idem: "sub_spaces (sub_spaces s) = sub_spaces s"
proof (induction s rule: sub_spaces.induct)
  case 1
  show ?case by simp
next
  case (2 c cs)
  show ?case
  proof (cases "py_isspace c")
    case True
    let ?t = "dropWhile py_isspace cs"
    have nt: "?t = [] \<or> \<not> py_isspace (hd ?t)"
      by (metis hd_dropWhile)
    have sp: "py_isspace (CHR '' '')" by (simp add: py_isspace_def ord_def)
    from True 2 nt sp show ?thesis
      by (simp add: dropWhile_sub_spaces)
  next
    case False
    with 2 show ?thesis by simp
  qed
qed

lemma last_sub_spaces: "s \<noteq> [] \<Longrightarrow> py_isspace (last (sub_spaces s)) = py_isspace (last s)"
proof (induction s rule: sub_spaces.induct)
  case 1
  then show ?case by simp
next
  case (2 c cs)
  show ?case
  proof (cases "py_isspace c")
    case True
    have sp: "py_isspace (CHR '' '')" by (simp add: py_isspace_def ord_def)
    show ?thesis
    proof (cases "dropWhile py_isspace cs = []")
      case e: True
      then have "\<forall>x\<in>set cs. py_isspace x" by (simp add: dropWhile_eq_Nil_conv)
      then have "py_isspace (last (c # cs))" using True by (cases "cs = []") auto
      with True e sp show ?thesis by simp
    next
      case ne: False
      then have "cs \<noteq> []" by auto
      have "last (dropWhile py_isspace cs) = last cs"
        using ne by (metis last_appendR takeWhile_dropWhile_id)
      with 2 True ne \<open>cs \<noteq> []\<close> sp show ?thesis by simp
    qed
  next
    case False
    with 2 show ?thesis by (cases cs) auto
  qed
qed

lemma py_strip_shape:
  "py_strip s = [] \<or> (\<not> py_isspace (hd (py_strip s)) \<and> \<not> py_isspace (last (py_strip s)))"
proof (cases "py_strip s = []")
  case True
  then show ?thesis by simp
next
  case False
  let ?d = "dropWhile py_isspace s"
  let ?r = "dropWhile py_isspace (rev ?d)"
  from False have r: "?r \<noteq> []" by (simp add: py_strip_def)
  have d: "?d \<noteq> []"
    using r by (metis dropWhile.simps(1) rev.simps(1))
  have l: "\<not> py_isspace (hd ?r)" using r by (metis hd_dropWhile)
  have "last (py_strip s) = hd ?r" using r by (simp add: py_strip_def last_rev)
  moreover have "hd (py_strip s) = hd ?d"
  proof -
    have "rev ?d = takeWhile py_isspace (rev ?d) @ ?r" by simp
    then have "?d = rev ?r @ rev (takeWhile py_isspace (rev ?d))"
      by (metis rev_append rev_rev_ident)
    then have "hd ?d = hd (rev ?r)" using r by (metis hd_append2 rev_is_Nil_conv)
    then show ?thesis by (simp add: py_strip_def)
  qed
  moreover have "\<not> py_isspace (hd ?d)" using d by (metis hd_dropWhile)
  ultimately show ?thesis using l by simp
qed

lemma py_strip_id:
  "s = [] \<or> (\<not> py_isspace (hd s) \<and> \<not> py_isspace (last s)) \<Longrightarrow> py_strip s = s"
proof (cases s)
  case Nil
  then show ?thesis by (simp add: py_strip_def)
next
  case (Cons a list)
  assume "s = [] \<or> (\<not> py_isspace (hd s) \<and> \<not> py_isspace (last s))"
  with Cons have h: "\<not> py_isspace (hd s)" and l: "\<not> py_isspace (last s)" by auto
  from Cons h have 1: "dropWhile py_isspace s = s" by simp
  have "rev s \<noteq> []" using Cons by simp
  moreover have "hd (rev s) = last s" using Cons by (simp add: hd_rev)
  ultimately have 2: "dropWhile py_isspace (rev s) = rev s" using l
    by (simp add: dropWhile_eq_self_iff)
  show ?thesis by (simp add: py_strip_def 1 2)
qed

lemma set_sub_spaces: "set (sub_spaces s) \<subseteq> insert (CHR '' '') (set s)"
proof (induction s rule: sub_spaces.induct)
  case 1
  show ?case by simp
next
  case (2 c cs)
  have "set (dropWhile py_isspace cs) \<subseteq> set cs" by (simp add: set_dropWhileD subsetI)
  with 2 show ?case by (cases "py_isspace c") auto
qed

lemma set_py_strip: "set (py_strip s) \<subseteq> set s"
  unfolding py_strip_def by (auto dest!: set_dropWhileD)


lemma upper_chars_keep:
  "is_AZ c \<or> is_az c \<or> is_09 c \<or> py_isspace c \<Longrightarrow>
     \<exists>d. upper_chars c = [d] \<and> plate_char d"
  by (auto simp: upper_chars_def plate_char_def is_AZ_def is_az_def is_09_def py_isspace_def ord_def)

lemma upper_chars_plate: "plate_char c \<Longrightarrow> upper_chars c = [c]"
  by (auto simp: upper_chars_def plate_char_def is_AZ_def is_az_def is_09_def py_isspace_def)

lemma py_upper_plate: "list_all plate_char s \<Longrightarrow> py_upper s = s"
  by (induction s) (auto simp: py_upper_def upper_chars_plate)

lemma py_upper_filter:
  "list_all plate_char (py_upper (filter (\<lambda>c. is_AZ c \<or> is_az c \<or> is_09 c \<or> py_isspace c) x))"
proof (induction x)
  case Nil
  show ?case by (simp add: py_upper_def)
next
  case (Cons c x)
  show ?case
  proof (cases "is_AZ c \<or> is_az c \<or> is_09 c \<or> py_isspace c")
    case True
    then obtain d where "upper_chars c = [d]" "plate_char d"
      using upper_chars_keep by blast
    with True Cons show ?thesis by (simp add: py_upper_def)
  next
    case False
    with Cons show ?thesis by simp
  qed
qed

text \<open>
  C9. Plate-text cleaning is idempotent: cleaning a cleaned text gives it back.
\<close>

theorem clean_plate_text_idempotent: "clean_plate_text (clean_plate_text x) = clean_plate_text x"
proof -
  let ?keep = "\<lambda>c. is_AZ c \<or> is_az c \<or> is_09 c \<or> py_isspace c"
  let ?u = "py_upper (filter ?keep x)"
  let ?y = "sub_spaces (py_strip ?u)"
  have y: "clean_plate_text x = ?y" by (simp add: clean_plate_text_def)
  have sp: "plate_char (CHR '' '')" by (simp add: plate_char_def py_isspace_def ord_def)
  have "set ?y \<subseteq> insert (CHR '' '') (set ?u)"
    using set_sub_spaces set_py_strip by blast
  then have py: "list_all plate_char ?y"
    using py_upper_filter [of x] sp by (auto simp: list_all_iff)
  then have keep: "filter ?keep ?y = ?y"
    by (auto simp: list_all_iff plate_char_def intro!: filter_True)
  have up: "py_upper ?y = ?y" using py by (rule py_upper_plate)
  have shape: "?y = [] \<or> (\<not> py_isspace (hd ?y) \<and> \<not> py_isspace (last ?y))"
    using py_strip_shape [of ?u] by (auto simp: hd_sub_spaces last_sub_spaces)
  have "clean_plate_text ?y = sub_spaces (py_strip ?y)"
    by (simp add: clean_plate_text_def keep up)
  also have "\<dots> = sub_spaces ?y" using shape by (simp add: py_strip_id)
  also have "\<dots> = ?y" by (rule sub_spaces_idem)
  finally show ?thesis by (simp add: y)
qed

subsection \<open>Plate text validation\<close>

text \<open>
  C6, as stated, fails: \<open>AB1\<close> is a cleaned text and matches the first configured
  pattern, yet validation rejects it, because the length test comes first.
\<close>

theorem validate_plate_text_short_match_rejected:
  "clean_plate_text ''AB1'' = ''AB1''
   \<and> list_ex (\<lambda>pattern. re_match pattern ''AB1'') plate_patterns
   \<and> \<not> validate_plate_text plate_patterns ''AB1''"
  by code_simp

text \<open>
  C6, amended. Validation accepts a text if and only if its length is at least 4 and it
  either matches one of the configured patterns or contains a letter and a digit.
\<close>

theorem validate_plate_text_iff:
  "validate_plate_text patterns text \<longleftrightarrow>
     4 \<le> length text \<and>
     (list_ex (\<lambda>pattern. re_match pattern text) patterns
      \<or> (list_ex py_isalpha text \<and> list_ex py_isdigit text))"
  by (auto simp: validate_plate_text_def Let_def)

theorem validate_plate_text_iff_witness:
  "validate_plate_text plate_patterns ''KA01AB1234''
   \<and> validate_plate_text plate_patterns ''X123YZW9''
   \<and> \<not> validate_plate_text plate_patterns ''12345''"
proof -
  have a: "list_ex (\<lambda>pattern. re_match pattern ''KA01AB1234'') plate_patterns" by code_simp
  have b: "list_ex py_isalpha ''X123YZW9'' \<and> list_ex py_isdigit ''X123YZW9''" by code_simp
  have c: "\<not> list_ex (\<lambda>pattern. re_match pattern ''12345'') plate_patterns" by code_simp
  have d: "\<not> list_ex py_isalpha ''12345''" by code_simp
  show ?thesis
    using a b c d
      validate_plate_text_iff [of plate_patterns "''KA01AB1234''"]
      validate_plate_text_iff [of plate_patterns "''X123YZW9''"]
      validate_plate_text_iff [of plate_patterns "''12345''"]
    by simp
qed

subsection \<open>Rate limiting of dispatched detections\<close>

lemma rate_key_inject:
  "t \<in> {''entry'', ''exit''} \<Longrightarrow> t' \<in> {''entry'', ''exit''} \<Longrightarrow>
     rate_key t p = rate_key t' p' \<longleftrightarrow> t = t' \<and> p = p'"
  by (auto simp: rate_key_def)

text \<open>
  With an event loop running in the calling thread the gate does what the specification
  says. On the exit path a repeat within the cooldown leaves the state as it is, and a
  repeat after it adds one task and replaces the time stamp.
\<close>

lemma exit_rate_limit_with_running_loop:
  assumes "license_plate d = Some plate" and "plate \<noteq> []"
  shows
    "(last_api_call s (rate_key ''exit'' plate) = Some t \<longrightarrow>
        now - t < api_cooldown s \<longrightarrow> handle_exit_detection True now now' d s = s)
     \<and> (last_api_call s (rate_key ''exit'' plate) = Some t \<longrightarrow>
        api_cooldown s \<le> now - t \<longrightarrow>
        handle_exit_detection True now now' d s =
          s\<lparr>last_api_call := (last_api_call s)(rate_key ''exit'' plate \<mapsto> now'),
            api_tasks := api_tasks s @ [ExitApi d]\<rparr>)"
  using assms
  by (auto simp: handle_exit_detection_def is_rate_limited_def Let_def)

text \<open>
  On the entry path, for a detection that passes the plate and confidence tests and a
  key whose last call was recorded at time \<open>t\<close>: a repeat less than the cooldown after
  \<open>t\<close> leaves the state unchanged, and one at least the cooldown after \<open>t\<close> adds exactly
  one task and replaces the time stamp. So a detection on a fresh key, its repeat within
  the cooldown and a further repeat after the cooldown add one task, none, and one more.
\<close>

lemma entry_rate_limit_with_running_loop:
  assumes "license_plate d = Some plate" and "plate \<noteq> []"
    and "plate_confidence d = Holds conf"
    and "plate_confidence_threshold (config s) \<le> conf"
  shows
    "(last_api_call s (rate_key ''entry'' plate) = Some t \<longrightarrow>
        now - t < api_cooldown s \<longrightarrow> handle_entry_detection True now now' d s = s)
     \<and> (last_api_call s (rate_key ''entry'' plate) = Some t \<longrightarrow>
        api_cooldown s \<le> now - t \<longrightarrow>
        handle_entry_detection True now now' d s =
          s\<lparr>last_api_call := (last_api_call s)(rate_key ''entry'' plate \<mapsto> now'),
            api_tasks := api_tasks s @ [EntryApi d]\<rparr>)
     \<and> (last_api_call s (rate_key ''entry'' plate) = None \<longrightarrow>
          cb - sa < api_cooldown s \<longrightarrow> api_cooldown s \<le> cc - sa \<longrightarrow>
          (let s1 = handle_entry_detection True ca sa d s;
               s2 = handle_entry_detection True cb sb d s1;
               s3 = handle_entry_detection True cc sc d s2
           in api_tasks s1 = api_tasks s @ [EntryApi d]
              \<and> last_api_call s1 (rate_key ''entry'' plate) = Some sa
              \<and> s2 = s1
              \<and> api_tasks s3 = api_tasks s @ [EntryApi d, EntryApi d]
              \<and> last_api_call s3 (rate_key ''entry'' plate) = Some sc))"
  using assms
  by (auto simp: handle_entry_detection_def is_rate_limited_def Let_def)

text \<open>
  C1 fails on the code. The handler is the entry callback of the camera manager and runs
  in a camera's worker thread, where no event loop runs. For the plate \<open>KA01AB1234\<close>
  with confidence 0.9 on a fresh service the rate limiter stores the time stamp, then
  \<open>create_task\<close> raises and the handler catches it: no backend call is made. The
  repeat three seconds later is dropped by the rate limiter, and the repeat after the
  cooldown again stores a time stamp and makes no call, where the claim has one call and
  then a second.
\<close>

theorem worker_thread_entry_makes_no_call:
  "(let d = entry_detection ''KA01AB1234'' 0.9;
        s1 = handle_entry_detection False 0 1 d (init_service default_config);
        s2 = handle_entry_detection False (seconds 3) (seconds 3 + 1) d s1;
        s3 = handle_entry_detection False (seconds 6) (seconds 6 + 1) d s2
    in api_tasks s1 = [] \<and> handler_errors s1 = [RuntimeError]
       \<and> last_api_call s1 (rate_key ''entry'' ''KA01AB1234'') = Some 1
       \<and> s2 = s1
       \<and> api_tasks s3 = [] \<and> handler_errors s3 = [RuntimeError, RuntimeError]
       \<and> last_api_call s3 (rate_key ''entry'' ''KA01AB1234'') = Some (seconds 6 + 1))"
  by (simp add: handle_entry_detection_def is_rate_limited_def rate_key_def
      entry_detection_def init_service_def default_config_def seconds_def Let_def)

subsection \<open>Entry detections below the plate-confidence threshold\<close>

text \<open>
  C2, as stated, fails: the rate limiter is asked before the confidence is looked at, so a
  second detection of the same plate with confidence 0.4, three seconds after the first,
  is dropped there and the failure counter stays at 1.
\<close>

theorem low_confidence_repeat_not_counted:
  "(let d = entry_detection ''KA01AB1234'' 0.4;
        s0 = init_service default_config;
        s1 = handle_entry_detection False 0 1 d s0;
        s2 = handle_entry_detection False (seconds 3) (seconds 3 + 1) d s1
    in 0.4 < plate_confidence_threshold (config s1)
       \<and> failed_detections (stats s1) = 1
       \<and> failed_detections (stats s2) = 1
       \<and> api_tasks s2 = [])"
  by (simp add: handle_entry_detection_def is_rate_limited_def rate_key_def
      entry_detection_def init_service_def default_config_def seconds_def Let_def)

text \<open>
  C2, amended. Take an entry detection with a non-empty plate whose confidence is a
  number below the threshold (the number stored under \<open>plate_confidence\<close>, or 0 when
  the key is absent). It never adds a task, with or without an event loop. It adds
  exactly 1 to the failure counter when the rate limiter lets it through, and leaves the
  counter as it is when the rate limiter drops it.
\<close>

theorem low_confidence_entry_counted_unless_limited:
  assumes "license_plate d = Some plate" and "plate \<noteq> []"
    and "plate_confidence d = Holds conf \<or> (plate_confidence d = KeyAbsent \<and> conf = 0)"
    and "conf < plate_confidence_threshold (config s)"
  shows "api_tasks (handle_entry_detection loop_running now now' d s) = api_tasks s
     \<and> failed_detections (stats (handle_entry_detection loop_running now now' d s)) =
         failed_detections (stats s)
           + (if fst (is_rate_limited now now' ''entry'' plate s) then 0 else 1)"
  using assms
  by (auto simp: handle_entry_detection_def is_rate_limited_def Let_def split: option.splits)

theorem low_confidence_entry_counted_unless_limited_witness:
  "(let d = entry_detection ''KA01AB1234'' 0.4;
        s1 = handle_entry_detection False 0 1 d (init_service default_config)
    in api_tasks s1 = [] \<and> failed_detections (stats s1) = 1)"
proof -
  let ?d = "entry_detection ''KA01AB1234'' 0.4"
  let ?s = "init_service default_config"
  have h1: "license_plate ?d = Some ''KA01AB1234''" by (simp add: entry_detection_def)
  have h2: "''KA01AB1234'' \<noteq> []" by simp
  have h3: "plate_confidence ?d = Holds 0.4 \<or> (plate_confidence ?d = KeyAbsent \<and> (0.4::real) = 0)"
    by (simp add: entry_detection_def)
  have h4: "0.4 < plate_confidence_threshold (config ?s)"
    by (simp add: init_service_def default_config_def)
  have nl: "\<not> fst (is_rate_limited 0 1 ''entry'' ''KA01AB1234'' ?s)"
    by (simp add: is_rate_limited_def init_service_def Let_def)
  have "api_tasks ?s = []" "failed_detections (stats ?s) = 0"
    by (simp_all add: init_service_def)
  with low_confidence_entry_counted_unless_limited [OF h1 h2 h3 h4, of False 0 1] nl
  show ?thesis by (simp add: Let_def)
qed

text \<open>
  A stored \<open>None\<close> is no confidence: the comparison raises, the handler catches it, and
  neither a task nor a count follows, though the time stamp has been stored.
\<close>

lemma confidence_none_raises:
  assumes "license_plate d = Some plate" and "plate \<noteq> []"
    and "plate_confidence d = HoldsNone"
    and "\<not> fst (is_rate_limited now now' ''entry'' plate s)"
  shows "handle_entry_detection loop_running now now' d s =
           s\<lparr>last_api_call := (last_api_call s)(rate_key ''entry'' plate \<mapsto> now'),
             handler_errors := handler_errors s @ [TypeError]\<rparr>"
  using assms
  by (auto simp: handle_entry_detection_def is_rate_limited_def Let_def split: option.splits)

subsection \<open>Multi-attempt OCR\<close>








subsection \<open>Duplicate suppression in the entry pipeline\<close>

lemma td_seconds_within_day:
  assumes "0 \<le> delta" and "delta < seconds 86400"
  shows "td_seconds delta < 10 \<longleftrightarrow> delta < seconds 10"
proof -
  define q where "q = delta div 1000000"
  define r where "r = delta mod 1000000"
  have d: "delta = q * 1000000 + r" by (simp add: q_def r_def)
  have r: "0 \<le> r" "r < 1000000" by (simp_all add: r_def)
  from assms d r have q: "0 \<le> q" "q < 86400" by (simp_all add: seconds_def)
  then have "q mod 86400 = q" by simp
  then have "td_seconds delta = q" by (simp add: td_seconds_def q_def)
  moreover have "q < 10 \<longleftrightarrow> delta < seconds 10"
    using d r by (simp add: seconds_def) arith
  ultimately show ?thesis by simp
qed

text \<open>
  The part of C4 that holds: for a frame that reaches the duplicate test less than one day
  after the last acceptance, a repeat of the last plate is dropped without a change to the
  remembered pair if it comes within 10 seconds and is processed otherwise, and a
  different plate is always processed.
\<close>

lemma duplicate_suppression_within_a_day:
  assumes "frame_skip p = 1" and "obs_vehicle obs = Some v" and "obs_plate obs = Some pc"
    and "obs_plate_text obs = Some text" and "validate_plate_format text None"
    and "last_processed_plate p = Some prev" and "last_processed_time p = Some t"
  shows "prev = text \<Longrightarrow> 0 \<le> now - t \<Longrightarrow> now - t < seconds 10 \<Longrightarrow>
           process_frame now obs p = Inr (None, p\<lparr>frame_count := frame_count p + 1\<rparr>)"
    and "(prev \<noteq> text \<or> (seconds 10 \<le> now - t \<and> now - t < seconds 86400)) \<Longrightarrow>
           \<exists>ev p'. process_frame now obs p = Inr (Some ev, p')
             \<and> ev_plate_number ev = text \<and> last_processed_plate p' = Some text
             \<and> last_processed_time p' = Some now"
proof -
  from assms(5) have ne: "text \<noteq> []" by (auto simp: validate_plate_format_def)
  {
    assume a: "prev = text" "0 \<le> now - t" "now - t < seconds 10"
    then have "now - t < seconds 86400" by (simp add: seconds_def)
    with a have "td_seconds (now - t) < 10" by (simp add: td_seconds_within_day)
    with assms ne a show "process_frame now obs p = Inr (None, p\<lparr>frame_count := frame_count p + 1\<rparr>)"
      by (cases v) (simp add: process_frame_def Let_def)
  }
  {
    assume a: "prev \<noteq> text \<or> (seconds 10 \<le> now - t \<and> now - t < seconds 86400)"
    then have "prev \<noteq> text \<or> \<not> td_seconds (now - t) < 10"
    proof
      assume "prev \<noteq> text" then show ?thesis by simp
    next
      assume b: "seconds 10 \<le> now - t \<and> now - t < seconds 86400"
      then have "0 \<le> now - t" by (simp add: seconds_def)
      with b show ?thesis by (simp add: td_seconds_within_day)
    qed
    with assms ne show "\<exists>ev p'. process_frame now obs p = Inr (Some ev, p')
             \<and> ev_plate_number ev = text \<and> last_processed_plate p' = Some text
             \<and> last_processed_time p' = Some now"
      by (cases v) (auto simp: process_frame_def Let_def)
  }
qed

text \<open>
  C4 fails on the code. The test reads \<open>timedelta.seconds\<close>, the seconds component of
  the difference, not the whole difference. A repeat of the last plate one day and three
  seconds after its acceptance has seconds component 3, so the frame is dropped and the
  remembered pair stays as it was, although 86403 seconds have passed.
\<close>

theorem duplicate_test_ignores_days:
  "td_days (seconds 86403 - 0) = 1 \<and> td_seconds (seconds 86403 - 0) = 3
   \<and> validate_plate_format ''KA01AB12'' None
   \<and> process_frame (seconds 86403) (frame_with_plate ''KA01AB12'') (pipeline_after ''KA01AB12'' 0)
       = Inr (None, (pipeline_after ''KA01AB12'' 0)\<lparr>frame_count := 2\<rparr>)"
  by (simp add: process_frame_def frame_with_plate_def pipeline_after_def td_seconds_def
      td_days_def seconds_def validate_plate_format_def py_isdigit_def py_isalpha_def
      is_09_def is_AZ_def is_az_def ord_def Let_def)

subsection \<open>Rounding to doubles\<close>

lemma scale_up_pos: "0 < x \<Longrightarrow> 0 < fst (scale_up x e)"
  by (induction x e rule: scale_up.induct) (subst scale_up.simps, auto)

lemma scale_down_pos: "0 < x \<Longrightarrow> 0 < fst (scale_down x e)"
  by (induction x e rule: scale_down.induct) (subst scale_down.simps, auto)

lemma round_half_even_nonneg: "0 \<le> y \<Longrightarrow> 0 \<le> round_half_even y"
  by (auto simp: round_half_even_def Let_def)

lemma pow2_pos: "0 < pow2 e"
  by (simp add: pow2_def)

lemma double_pos_nonneg: "0 < x \<Longrightarrow> 0 \<le> double_pos x"
proof -
  assume x: "0 < x"
  obtain y e where s: "scale_up x 0 = (y, e)" by (cases "scale_up x 0")
  obtain z e' where d: "scale_down y e = (z, e')" by (cases "scale_down y e")
  from x s have "0 < y" using scale_up_pos [of x 0] by simp
  with d have "0 < z" using scale_down_pos [of y e] by simp
  then have "0 \<le> round_half_even z" by (simp add: round_half_even_nonneg)
  moreover from x have "0 \<le> round_half_even (x * 2 ^ 1074)"
    by (simp add: round_half_even_nonneg)
  ultimately show ?thesis
    using pow2_pos [of e'] by (simp add: double_pos_def s d)
qed

lemma double_nonneg: "0 \<le> x \<Longrightarrow> 0 \<le> double x"
  using double_pos_nonneg by (simp add: double_def)

text \<open>
  A positive number that \<open>k\<close> doublings bring into the range from \<open>2 ^ 52\<close> up to
  \<open>2 ^ 53\<close> is rounded there to an integer and scaled back. The values of the examples
  are computed with this.
\<close>

lemma scale_up_steps:
  "2 ^ 52 \<le> x * 2 ^ k \<Longrightarrow> x * 2 ^ k < 2 ^ 53 \<Longrightarrow> scale_up x e = (x * 2 ^ k, e - int k)"
proof (induction k arbitrary: x e)
  case 0
  then show ?case by (subst scale_up.simps) simp
next
  case (Suc k)
  have pos: "0 < x"
  proof (rule ccontr)
    assume "\<not> 0 < x"
    then have "x * 2 ^ Suc k \<le> 0" by (simp add: mult_nonpos_nonneg)
    moreover have "(0::real) < 2 ^ 52" by simp
    ultimately show False using Suc.prems(1) by linarith
  qed
  have "(1::real) \<le> 2 ^ k" by simp
  then have "x * 1 \<le> x * 2 ^ k" using pos by (intro mult_left_mono) simp_all
  with Suc.prems have small: "x < 2 ^ 52" by simp
  have "scale_up (x * 2) (e - 1) = (x * 2 * 2 ^ k, e - 1 - int k)"
    using Suc.prems by (intro Suc.IH) (simp_all add: mult.assoc)
  with pos small show ?case by (subst scale_up.simps) (simp add: mult.assoc)
qed

lemma double_scaled:
  assumes "2 ^ 52 \<le> x * 2 ^ k" and "x * 2 ^ k < 2 ^ 53" and "k \<le> 1074"
  shows "double x = of_int (round_half_even (x * 2 ^ k)) / 2 ^ k"
proof -
  have pos: "0 < x"
  proof (rule ccontr)
    assume "\<not> 0 < x"
    then have "x * 2 ^ k \<le> 0" by (simp add: mult_nonpos_nonneg)
    moreover have "(0::real) < 2 ^ 52" by simp
    ultimately show False using assms(1) by linarith
  qed
  have u: "scale_up x 0 = (x * 2 ^ k, - int k)"
    using scale_up_steps [OF assms(1,2), of 0] by simp
  have d: "scale_down (x * 2 ^ k) (- int k) = (x * 2 ^ k, - int k)"
    using assms(2) by (subst scale_down.simps) simp
  have p: "pow2 (- int k) = 1 / 2 ^ k" by (simp add: pow2_def)
  from assms(3) have "\<not> - int k < - 1074" by simp
  then have "double_pos x = of_int (round_half_even (x * 2 ^ k)) / 2 ^ k"
    by (simp add: double_pos_def u d p)
  with pos show ?thesis by (simp add: double_def)
qed

lemma double_zero: "double 0 = 0"
  by (simp add: double_def)

lemma double_2_5: "double (2 / 5) = 3602879701896397 / 9007199254740992"
  by (subst double_scaled [where k = 54]) (simp_all add: round_half_even_def Let_def)

lemma double_3_10: "double (3 / 10) = 5404319552844595 / 18014398509481984"
  by (subst double_scaled [where k = 54]) (simp_all add: round_half_even_def Let_def)

lemma double_7_10: "double (7 / 10) = 3152519739159347 / 4503599627370496"
  by (subst double_scaled [where k = 53]) (simp_all add: round_half_even_def Let_def)

lemma fdiv_nonneg: "0 \<le> a \<Longrightarrow> 0 \<le> b \<Longrightarrow> 0 \<le> fdiv a b"
  by (simp add: fdiv_def double_nonneg)

lemma fmul_nonneg: "0 \<le> a \<Longrightarrow> 0 \<le> b \<Longrightarrow> 0 \<le> fmul a b"
  by (simp add: fmul_def double_nonneg)

lemma fadd_nonneg: "0 \<le> a \<Longrightarrow> 0 \<le> b \<Longrightarrow> 0 \<le> fadd a b"
  by (simp add: fadd_def double_nonneg)

lemma double_0_4: "double 0.4 = 3602879701896397 / 9007199254740992"
  by (simp add: double_2_5)

lemma double_0_3: "double 0.3 = 5404319552844595 / 18014398509481984"
  by (simp add: double_3_10)

lemma double_0_7: "double 0.7 = 3152519739159347 / 4503599627370496"
  by (simp add: double_7_10)

lemma double_one: "double 1 = 1"
  by (subst double_scaled [where k = 52]) (simp_all add: round_half_even_def Let_def)

lemma double_4_5: "double (4 / 5) = 3602879701896397 / 4503599627370496"
  by (subst double_scaled [where k = 53]) (simp_all add: round_half_even_def Let_def)

lemma double_800_3: "double (800 / 3) = 4691249611844267 / 17592186044416"
  by (subst double_scaled [where k = 44]) (simp_all add: round_half_even_def Let_def)

lemma double_14450: "double 14450 = 14450"
  by (subst double_scaled [where k = 39]) (simp_all add: round_half_even_def Let_def)

text \<open>
  The score of the region with foreground ratio 4/5 (as a double), no edges and the
  variance 800/3 (as a double), operation by operation, and the score of the region with
  all of its mask set, no edges and variance 14450.
\<close>

lemma flat_frame_score:
  "double_occupancy_score (3602879701896397 / 4503599627370496) 0
     (4691249611844267 / 17592186044416) = 7205759403792795 / 18014398509481984"
proof -
  have f1: "double (3602879701896397 / 9007199254740992 * (3602879701896397 / 4503599627370496))
              = 1441151880758559 / 4503599627370496"
    by (subst double_scaled [where k = 54]) (simp_all add: round_half_even_def Let_def)
  have f2: "double (5404319552844595 / 18014398509481984 * 0) = 0"
    by (simp add: double_zero)
  have f3: "double (4691249611844267 / 17592186044416 / 1000)
              = 4803839602528529 / 18014398509481984"
    by (subst double_scaled [where k = 54]) (simp_all add: round_half_even_def Let_def)
  have f4: "min (4803839602528529 / 18014398509481984) (1::real)
              = 4803839602528529 / 18014398509481984"
    by simp
  have f5: "double (5404319552844595 / 18014398509481984 * (4803839602528529 / 18014398509481984))
              = 5764607523034235 / 72057594037927936"
    by (subst double_scaled [where k = 56]) (simp_all add: round_half_even_def Let_def)
  have f6: "double (1441151880758559 / 4503599627370496 + 0)
              = 1441151880758559 / 4503599627370496"
    by (subst double_scaled [where k = 54]) (simp_all add: round_half_even_def Let_def)
  have f7: "double (1441151880758559 / 4503599627370496 + 5764607523034235 / 72057594037927936)
              = 7205759403792795 / 18014398509481984"
    by (subst double_scaled [where k = 54]) (simp_all add: round_half_even_def Let_def)
  show ?thesis
    unfolding double_occupancy_score_def fadd_def fmul_def fdiv_def double_0_4 double_0_3
      f1 f2 f3 f4 f5 f6 f7
    by simp
qed

lemma example_frame_score: "double_occupancy_score 1 0 14450 = double 0.7"
proof -
  have g1: "double (3602879701896397 / 9007199254740992 * 1)
              = 3602879701896397 / 9007199254740992"
    by (subst double_scaled [where k = 54]) (simp_all add: round_half_even_def Let_def)
  have g2: "double (5404319552844595 / 18014398509481984 * 0) = 0"
    by (simp add: double_zero)
  have g3: "double (14450 / 1000) = 4067313413468979 / 281474976710656"
    by (subst double_scaled [where k = 49]) (simp_all add: round_half_even_def Let_def)
  have g4: "min (4067313413468979 / 281474976710656) (1::real) = 1"
    by simp
  have g5: "double (5404319552844595 / 18014398509481984 * 1)
              = 5404319552844595 / 18014398509481984"
    by (subst double_scaled [where k = 54]) (simp_all add: round_half_even_def Let_def)
  have g6: "double (3602879701896397 / 9007199254740992 + 0)
              = 3602879701896397 / 9007199254740992"
    by (subst double_scaled [where k = 54]) (simp_all add: round_half_even_def Let_def)
  have g7: "double (3602879701896397 / 9007199254740992 + 5404319552844595 / 18014398509481984)
              = 3152519739159347 / 4503599627370496"
    by (subst double_scaled [where k = 53]) (simp_all add: round_half_even_def Let_def)
  show ?thesis
    unfolding double_occupancy_score_def fadd_def fmul_def fdiv_def double_0_4 double_0_3
      double_0_7 g1 g2 g3 g4 g5 g6 g7
    by simp
qed

subsection \<open>Occupancy score\<close>

lemma double_pixel_ratio_nonneg: "0 \<le> double_pixel_ratio m"
  by (simp add: double_pixel_ratio_def fdiv_nonneg)

lemma weights_nonneg: "0 \<le> double 0.4" "0 \<le> double 0.3"
  by (simp_all add: double_nonneg)

lemma calculate_occupancy_score_double:
  assumes "image_size slot_region \<noteq> 0" and "0 \<le> np_var slot_region"
  shows "calculate_occupancy_score canny np_var slot_region mask_region =
           double_occupancy_score (double_pixel_ratio mask_region)
             (double_pixel_ratio (canny slot_region)) (np_var slot_region)"
proof -
  let ?nv = "min (fdiv (np_var slot_region) 1000) 1"
  let ?sum = "fadd (fadd (fmul (double 0.4) (double_pixel_ratio mask_region))
                      (fmul (double 0.3) (double_pixel_ratio (canny slot_region))))
                (fmul (double 0.3) ?nv)"
  have "0 \<le> fdiv (np_var slot_region) 1000" using assms(2) by (simp add: fdiv_nonneg)
  then have nv: "0 \<le> ?nv" by simp
  have "0 \<le> ?sum"
    by (intro fadd_nonneg fmul_nonneg weights_nonneg double_pixel_ratio_nonneg nv)
  then have "double_occupancy_score (double_pixel_ratio mask_region)
               (double_pixel_ratio (canny slot_region)) (np_var slot_region) = min ?sum 1"
    unfolding double_occupancy_score_def by (simp add: min.commute max_def)
  moreover have "calculate_occupancy_score canny np_var slot_region mask_region = min ?sum 1"
    using assms(1)
    unfolding calculate_occupancy_score_def double_pixel_ratio_def Let_def by simp
  ultimately show ?thesis by simp
qed

lemma double_occupancy_score_range:
  "0 \<le> double_occupancy_score f e v \<and> double_occupancy_score f e v \<le> 1"
  by (simp add: double_occupancy_score_def)

text \<open>Scenario E of the specification, in exact arithmetic.\<close>

lemma scenario_E: "spec_occupancy_score 0.6 0.5 500 = 0.54"
  by (simp add: spec_occupancy_score_def)

lemma flat_frame_crop:
  "crop flat_frame 0 0 5 1 = flat_frame" "crop flat_mask 0 0 5 1 = flat_mask"
  by (simp_all add: crop_def py_slice_def slice_index_def flat_frame_def flat_mask_def)

lemma flat_frame_exact:
  "pixel_ratio flat_mask = 4 / 5" "pixel_ratio (no_edges flat_frame) = 0"
  "variance flat_frame = 800 / 3"
  by (simp_all add: flat_frame_def flat_mask_def pixel_ratio_def no_edges_def mask_size_def
      count_positive_def variance_def Let_def power2_eq_square)

lemma flat_frame_double:
  "double_pixel_ratio flat_mask = 3602879701896397 / 4503599627370496"
  "double_pixel_ratio (no_edges flat_frame) = 0"
  "rounded_variance flat_frame = 4691249611844267 / 17592186044416"
proof -
  show "double_pixel_ratio flat_mask = 3602879701896397 / 4503599627370496"
    by (simp add: flat_mask_def double_pixel_ratio_def mask_size_def count_positive_def
        fdiv_def double_4_5)
  show "double_pixel_ratio (no_edges flat_frame) = 0"
    by (simp add: flat_frame_def double_pixel_ratio_def no_edges_def mask_size_def
        count_positive_def fdiv_def double_zero)
  show "rounded_variance flat_frame = 4691249611844267 / 17592186044416"
    by (simp add: rounded_variance_def flat_frame_exact double_800_3)
qed

text \<open>
  C3, as stated, fails: the code computes the weighted sum in double arithmetic, and the
  result is not always the value of the formula. For the region of one row and five
  pixels with foreground ratio 4/5, no edges and variance 800/3 the formula gives exactly
  0.4, and with the variance as \<open>np.var\<close> returns it a value that is still not above
  the default threshold, so the slot would be free. The code's score is the double
  printed as 0.4000000000000001; it is above the threshold, and the slot is reported
  occupied.
\<close>

theorem rounded_score_differs_from_formula:
  "(let st = check_slot_occupancy default_detector no_edges rounded_variance 0
               flat_frame flat_mask (roi_at (0, 0, 5, 1));
        exact = spec_occupancy_score (pixel_ratio (crop flat_mask 0 0 5 1))
                  (pixel_ratio (no_edges (crop flat_frame 0 0 5 1)))
                  (variance (crop flat_frame 0 0 5 1));
        exact_np = spec_occupancy_score (pixel_ratio (crop flat_mask 0 0 5 1))
                  (pixel_ratio (no_edges (crop flat_frame 0 0 5 1)))
                  (rounded_variance (crop flat_frame 0 0 5 1))
    in exact = 2 / 5
       \<and> \<not> occupancy_threshold default_detector < exact
       \<and> \<not> occupancy_threshold default_detector < exact_np
       \<and> confidence st = 7205759403792795 / 18014398509481984
       \<and> confidence st \<noteq> exact \<and> confidence st \<noteq> exact_np
       \<and> is_occupied st)"
proof -
  have e: "spec_occupancy_score (4 / 5) 0 (800 / 3) = 2 / 5"
    by (simp add: spec_occupancy_score_def)
  have n: "spec_occupancy_score (4 / 5) 0 (4691249611844267 / 17592186044416)
             = 70368744177664001 / 175921860444160000"
    by (simp add: spec_occupancy_score_def)
  have t: "occupancy_threshold default_detector = 3602879701896397 / 9007199254740992"
    by (simp add: default_detector_def double_2_5)
  have s: "image_size flat_frame \<noteq> 0"
    by (simp add: flat_frame_def image_size_def mask_size_def)
  have v: "0 \<le> rounded_variance flat_frame" by (simp add: flat_frame_double)
  have c: "calculate_occupancy_score no_edges rounded_variance flat_frame flat_mask
             = 7205759403792795 / 18014398509481984"
    by (simp add: calculate_occupancy_score_double [where np_var = rounded_variance
          and canny = no_edges and slot_region = flat_frame, OF s v]
        flat_frame_double flat_frame_score)
  have st: "check_slot_occupancy default_detector no_edges rounded_variance 0
               flat_frame flat_mask (roi_at (0, 0, 5, 1)) =
      \<lparr>st_slot_id = 1, is_occupied = True,
       confidence = 7205759403792795 / 18014398509481984, st_license_plate = None,
       st_vehicle_type = None, last_updated = Some 0\<rparr>"
    by (simp add: check_slot_occupancy_def roi_at_def flat_frame_crop c t)
  show ?thesis
    unfolding Let_def st flat_frame_crop flat_frame_exact flat_frame_double e n t
    by simp
qed

text \<open>
  C3, amended. For a region of interest whose crop of the frame has pixels, and a
  variance from \<open>np.var\<close> that is not negative, the confidence of the slot status is the
  weighted sum of the specification computed in double arithmetic: the ratios are rounded
  quotients, 0.4 and 0.3 are the doubles nearest to them, and each division,
  multiplication and addition is rounded. It lies between 0 and 1, and the slot is
  occupied exactly when this computed score is greater than the occupancy threshold.
\<close>

theorem occupancy_score_double_formula:
  assumes "coordinates roi = (x, y, w, h)"
    and "image_size (crop frame x y w h) \<noteq> 0"
    and "0 \<le> np_var (crop frame x y w h)"
  shows "(let st = check_slot_occupancy det canny np_var now frame bg_mask roi
          in confidence st =
               double_occupancy_score (double_pixel_ratio (crop bg_mask x y w h))
                 (double_pixel_ratio (canny (crop frame x y w h)))
                 (np_var (crop frame x y w h))
             \<and> 0 \<le> confidence st \<and> confidence st \<le> 1
             \<and> (is_occupied st \<longleftrightarrow> occupancy_threshold det < confidence st))"
  using assms double_occupancy_score_range
  by (simp add: check_slot_occupancy_def Let_def calculate_occupancy_score_double)

lemma example_frame_crop:
  "crop example_frame 0 0 1 1 = [[[0, 0, 255]]]" "crop example_mask 0 0 1 1 = [[255]]"
  "crop example_frame (- 2) 0 1 1 = [[[0, 0, 255]]]" "crop example_mask (- 2) 0 1 1 = [[255]]"
  by (simp_all add: crop_def py_slice_def slice_index_def example_frame_def example_mask_def)

lemma example_frame_double:
  "rounded_variance [[[0, 0, 255]]] = 14450"
  "double_pixel_ratio [[255]] = 1" "double_pixel_ratio (no_edges [[[0, 0, 255]]]) = 0"
proof -
  have "variance [[[0, 0, 255]]] = 14450"
    by (simp add: variance_def Let_def power2_eq_square)
  then show "rounded_variance [[[0, 0, 255]]] = 14450"
    by (simp add: rounded_variance_def double_14450)
  show "double_pixel_ratio [[255]] = 1"
    by (simp add: double_pixel_ratio_def mask_size_def count_positive_def fdiv_def double_one)
  show "double_pixel_ratio (no_edges [[[0, 0, 255]]]) = 0"
    by (simp add: double_pixel_ratio_def no_edges_def mask_size_def count_positive_def
        fdiv_def double_zero)
qed

lemma default_threshold_below: "occupancy_threshold default_detector < double 0.7"
  by (simp add: default_detector_def double_2_5 double_7_10)

theorem occupancy_score_double_formula_witness:
  "(let st = check_slot_occupancy default_detector no_edges rounded_variance 0
               example_frame example_mask (roi_at (0, 0, 1, 1))
    in confidence st = double_occupancy_score 1 0 14450 \<and> confidence st = double 0.7
       \<and> is_occupied st)"
proof -
  have c: "coordinates (roi_at (0, 0, 1, 1)) = (0, 0, 1, 1)" by (simp add: roi_at_def)
  have n: "image_size (crop example_frame 0 0 1 1) \<noteq> 0"
    unfolding example_frame_crop by (simp add: image_size_def mask_size_def)
  have v: "0 \<le> rounded_variance (crop example_frame 0 0 1 1)"
    unfolding example_frame_crop example_frame_double by simp
  note T = occupancy_score_double_formula [where np_var = rounded_variance
      and canny = no_edges and det = default_detector and now = 0 and bg_mask = example_mask
      and frame = example_frame and roi = "roi_at (0, 0, 1, 1)", OF c n v,
      unfolded example_frame_crop example_frame_double Let_def]
  show ?thesis
    unfolding Let_def using T default_threshold_below example_frame_score by simp
qed

subsection \<open>Regions of interest outside the frame\<close>

lemma py_slice_outside:
  assumes "0 \<le> a" and "0 \<le> k" and "\<not> max a 0 < min (a + k) (int (length xs))"
  shows "py_slice xs a (a + k) = []"
proof -
  from assms have "a + k \<le> a \<or> int (length xs) \<le> a" by auto
  then show ?thesis
  proof
    assume "a + k \<le> a"
    with assms have "k = 0" by simp
    then show ?thesis by (simp add: py_slice_def)
  next
    assume "int (length xs) \<le> a"
    with assms have "slice_index (length xs) a = length xs"
      by (simp add: slice_index_def)
    then show ?thesis by (simp add: py_slice_def)
  qed
qed

lemma set_py_slice: "set (py_slice xs a b) \<subseteq> set xs"
  unfolding py_slice_def Let_def
  by (meson set_drop_subset set_take_subset subset_trans)

lemma outside_frame_crop_empty:
  assumes "0 \<le> x" and "0 \<le> y" and "0 \<le> w" and "0 \<le> h"
    and rect: "\<forall>row\<in>set frame. length row = frame_width frame"
    and out: "\<not> rect_meets_frame frame (x, y, w, h)"
  shows "image_size (crop frame x y w h) = 0"
proof (cases "max y 0 < min (y + h) (int (length frame))")
  case False
  with assms have "py_slice frame y (y + h) = []" by (simp add: py_slice_outside)
  then show ?thesis by (simp add: crop_def image_size_def)
next
  case True
  with out have nx: "\<not> max x 0 < min (x + w) (int (frame_width frame))"
    by (simp add: rect_meets_frame_def)
  have "py_slice row x (x + w) = []" if "row \<in> set (py_slice frame y (y + h))" for row
  proof -
    from that set_py_slice [of frame y "y + h"] have "row \<in> set frame" by auto
    with rect have "length row = frame_width frame" by simp
    with nx assms show ?thesis by (simp add: py_slice_outside)
  qed
  then have "\<forall>r\<in>set (crop frame x y w h). r = []" by (auto simp: crop_def)
  then have "sum_list (map mask_size (crop frame x y w h)) = 0"
    by (fastforce simp: mask_size_def)
  then show ?thesis by (simp add: image_size_def)
qed

text \<open>
  C10, as stated, fails: the rectangle that starts two columns to the left of the example
  frame and is one column wide does not meet the frame, but the slice wraps around to the
  first column; the crop has one pixel, the score is the double nearest 0.7 and the slot
  is reported occupied. (With any other edge map the score is no smaller.)
\<close>

theorem roi_left_of_frame_is_scored:
  "\<not> rect_meets_frame example_frame (- 2, 0, 1, 1)
   \<and> crop example_frame (- 2) 0 1 1 = [[[0, 0, 255]]]
   \<and> confidence (check_slot_occupancy default_detector no_edges rounded_variance 0
        example_frame example_mask (roi_at (- 2, 0, 1, 1))) = double 0.7
   \<and> is_occupied (check_slot_occupancy default_detector no_edges rounded_variance 0
        example_frame example_mask (roi_at (- 2, 0, 1, 1)))"
proof -
  have a: "\<not> rect_meets_frame example_frame (- 2, 0, 1, 1)"
    by (simp add: rect_meets_frame_def example_frame_def frame_width_def)
  have n: "image_size [[[0, 0, 255]]] \<noteq> 0" by (simp add: image_size_def mask_size_def)
  have v: "0 \<le> rounded_variance [[[0, 0, 255]]]" by (simp add: example_frame_double)
  have s: "calculate_occupancy_score no_edges rounded_variance [[[0, 0, 255]]] [[255]]
             = double 0.7"
    by (simp add: calculate_occupancy_score_double [where np_var = rounded_variance
          and canny = no_edges and slot_region = "[[[0, 0, 255]]]", OF n v]
        example_frame_double example_frame_score)
  have c: "check_slot_occupancy default_detector no_edges rounded_variance 0
        example_frame example_mask (roi_at (- 2, 0, 1, 1)) =
      \<lparr>st_slot_id = 1, is_occupied = True, confidence = double 0.7, st_license_plate = None,
       st_vehicle_type = None, last_updated = Some 0\<rparr>"
    using default_threshold_below
    by (simp add: check_slot_occupancy_def roi_at_def example_frame_crop s)
  show ?thesis using a by (simp add: c example_frame_crop)
qed

text \<open>
  C10, amended. When the crop of the frame has no pixel, the score is 0 and, for an
  occupancy threshold that is not negative, the slot is reported unoccupied with
  confidence 0. The crop has no pixel in particular when the coordinates and the extent
  of the region are not negative and its rectangle does not meet the frame.
\<close>

theorem empty_crop_reported_unoccupied:
  assumes "coordinates roi = (x, y, w, h)"
    and "0 \<le> occupancy_threshold det"
    and "image_size (crop frame x y w h) = 0
         \<or> (0 \<le> x \<and> 0 \<le> y \<and> 0 \<le> w \<and> 0 \<le> h
            \<and> (\<forall>row\<in>set frame. length row = frame_width frame)
            \<and> \<not> rect_meets_frame frame (x, y, w, h))"
  shows "check_slot_occupancy det canny np_var now frame bg_mask roi =
           \<lparr>st_slot_id = slot_id roi, is_occupied = False, confidence = 0,
            st_license_plate = None, st_vehicle_type = None, last_updated = Some now\<rparr>"
proof -
  from assms(3) have "image_size (crop frame x y w h) = 0"
    using outside_frame_crop_empty by blast
  with assms(1,2) show ?thesis
    by (simp add: check_slot_occupancy_def calculate_occupancy_score_def Let_def)
qed

theorem empty_crop_reported_unoccupied_witness:
  "\<not> rect_meets_frame example_frame (5, 0, 1, 1)
   \<and> check_slot_occupancy default_detector no_edges rounded_variance 0 example_frame
       example_mask (roi_at (5, 0, 1, 1)) =
     \<lparr>st_slot_id = 1, is_occupied = False, confidence = 0, st_license_plate = None,
      st_vehicle_type = None, last_updated = Some 0\<rparr>"
proof -
  have c: "coordinates (roi_at (5, 0, 1, 1)) = (5, 0, 1, 1)" by (simp add: roi_at_def)
  have t: "0 \<le> occupancy_threshold default_detector"
    by (simp add: default_detector_def double_nonneg)
  have o: "\<not> rect_meets_frame example_frame (5, 0, 1, 1)"
    by (simp add: rect_meets_frame_def example_frame_def frame_width_def)
  have r: "\<forall>row\<in>set example_frame. length row = frame_width example_frame"
    by (simp add: example_frame_def frame_width_def)
  have h: "image_size (crop example_frame 5 0 1 1) = 0
         \<or> ((0::int) \<le> 5 \<and> (0::int) \<le> 0 \<and> (0::int) \<le> 1 \<and> (0::int) \<le> 1
            \<and> (\<forall>row\<in>set example_frame. length row = frame_width example_frame)
            \<and> \<not> rect_meets_frame example_frame (5, 0, 1, 1))"
    using o r by simp
  from empty_crop_reported_unoccupied [OF c t h, of no_edges rounded_variance 0 example_mask] o
  show ?thesis by (simp add: roi_at_def)
qed

subsection \<open>Read failures in the camera worker loop\<close>

text \<open>
  The part of C8 that holds: only the stop flag ends the loop. Whatever the read and the
  processing do in a pass, the loop goes on with the next pass.
\<close>

lemma run_loop_continues:
  "\<forall>i\<in>set passes. \<not> stop_is_set i \<Longrightarrow>
     run_loop fi (passes @ later) w = run_loop fi later (run_loop fi passes w)"
  by (induction passes arbitrary: w) auto

text \<open>
  A pass whose read returns false, once the frame interval has passed, performs the read
  and a warning and nothing else: no sleep, and the time of the last frame is not moved,
  so the next pass reads at once.
\<close>

lemma failed_read_does_not_sleep:
  assumes "read_result i = ReadFalse" and "\<not> current_time i - last_frame_time w < fi"
  shows "loop_body fi i w = w\<lparr>effects := effects w @ [CapRead, LogWarning]\<rparr>"
  using assms by (simp add: loop_body_def)

lemma failed_reads_never_sleep:
  assumes "\<forall>i\<in>set passes. read_result i = ReadFalse \<and> \<not> stop_is_set i
             \<and> \<not> current_time i - last_frame_time w < fi"
  shows "run_loop fi passes w =
           w\<lparr>effects := effects w @ concat (map (\<lambda>i. [CapRead, LogWarning]) passes)\<rparr>"
  using assms
proof (induction passes arbitrary: w)
  case Nil
  show ?case by simp
next
  case (Cons i passes)
  let ?w = "w\<lparr>effects := effects w @ [CapRead, LogWarning]\<rparr>"
  from Cons.prems have b: "loop_body fi i w = ?w" by (simp add: failed_read_does_not_sleep)
  from Cons.prems have "\<forall>j\<in>set passes. read_result j = ReadFalse \<and> \<not> stop_is_set j
             \<and> \<not> current_time j - last_frame_time ?w < fi" by simp
  then have "run_loop fi passes ?w =
      ?w\<lparr>effects := effects ?w @ concat (map (\<lambda>i. [CapRead, LogWarning]) passes)\<rparr>"
    by (rule Cons.IH)
  with Cons.prems b show ?case by simp
qed

text \<open>
  C8 fails on the code. With a target of 10 frames per second and a stream whose read
  returns false, three passes at one and the same clock reading perform three reads and
  three warnings and no sleep: the loop spins. Only a read or a processing step that
  raises is followed by the sleep of one second.
\<close>

theorem dead_stream_busy_spins:
  "process_camera_stream 10 [dead_read 100, dead_read 100, dead_read 100] =
     Inr \<lparr>last_frame_time = 0, frames_processed = 0,
          effects = [CapRead, LogWarning, CapRead, LogWarning, CapRead, LogWarning]\<rparr>"
  by (simp add: process_camera_stream_def dead_read_def loop_body_def)

end
